theory Spec2Isabelle
  imports Complex_Main
begin

section \<open>Text\<close>

text \<open>
  A Python string is a sequence of Unicode code points and is modelled as the list of
  their numbers (integers, as \<open>ord\<close> gives them), so that \<open>len\<close>, slices and the
  character tests count and see what Python's do. \<open>py\<close> gives the code points of a
  literal.
\<close>

type_synonym pystr = "int list"

definition py :: "string \<Rightarrow> pystr" where
  "py s = map (of_char :: char \<Rightarrow> int) s"

text \<open>
  \<open>c.isspace()\<close> for one character, which \<open>strip()\<close> and \<open>split()\<close> use: the
  whitespace of Unicode, that is U+0009 to U+000D, U+001C to U+0020, U+0085, U+00A0,
  U+1680, U+2000 to U+200A, U+2028, U+2029, U+202F, U+205F and U+3000.
\<close>

definition isspace :: "int \<Rightarrow> bool" where
  "isspace c =
     ((0x09 \<le> c \<and> c \<le> 0x0D) \<or> (0x1C \<le> c \<and> c \<le> 0x20) \<or> c = 0x85 \<or> c = 0xA0 \<or> c = 0x1680
      \<or> (0x2000 \<le> c \<and> c \<le> 0x200A) \<or> c = 0x2028 \<or> c = 0x2029 \<or> c = 0x202F
      \<or> c = 0x205F \<or> c = 0x3000)"

text \<open>
  The letters of Unicode and its case mappings are tables of the interpreter, too large
  to be written out; what the program uses of them is a parameter:
  \<^item> \<open>alpha c\<close>: \<open>c.isalpha()\<close> for one character;
  \<^item> \<open>cased c\<close>: whether \<open>c\<close> is a cased character;
  \<^item> \<open>title_of c\<close>: the title-case mapping of \<open>c\<close>, one to three characters;
  \<^item> \<open>lower_at s i\<close>: the lower-case mapping of the character at index \<open>i\<close> of
    \<open>s\<close> (it looks at the neighbours for the capital sigma only).
\<close>

record char_db =
  alpha :: "int \<Rightarrow> bool"
  cased :: "int \<Rightarrow> bool"
  title_of :: "int \<Rightarrow> pystr"
  lower_at :: "pystr \<Rightarrow> nat \<Rightarrow> pystr"

text \<open>\<open>s.strip()\<close>: whitespace removed at both ends.\<close>

definition str_strip :: "pystr \<Rightarrow> pystr" where
  "str_strip s = rev (dropWhile isspace (rev (dropWhile isspace s)))"

text \<open>
  \<open>s.split()\<close>: the maximal runs of characters that are not whitespace, in order. The
  first argument is the word being read.
\<close>

fun split_from :: "pystr \<Rightarrow> pystr \<Rightarrow> pystr list" where
  "split_from w [] = (if w = [] then [] else [w])"
| "split_from w (c # cs) =
     (if isspace c then (if w = [] then split_from [] cs else w # split_from [] cs)
      else split_from (w @ [c]) cs)"

definition str_split :: "pystr \<Rightarrow> pystr list" where
  "str_split s = split_from [] s"

text \<open>
  \<open>s.title()\<close>: the characters are mapped from left to right, a character that follows
  a cased character to lower case, any other to title case. The flag says whether the
  character before was cased; the list holds the indices still to do.
\<close>

fun title_loop :: "char_db \<Rightarrow> pystr \<Rightarrow> bool \<Rightarrow> nat list \<Rightarrow> pystr" where
  "title_loop db s previous_is_cased [] = []"
| "title_loop db s previous_is_cased (i # rest) =
     (if previous_is_cased then lower_at db s i else title_of db (s ! i))
       @ title_loop db s (cased db (s ! i)) rest"

definition str_title :: "char_db \<Rightarrow> pystr \<Rightarrow> pystr" where
  "str_title db s = title_loop db s False [0..<length s]"

text \<open>\<open>str(n)\<close> for an integer, and the format \<open>{n:02d}\<close>.\<close>

definition digit_char :: "nat \<Rightarrow> int" where
  "digit_char d = 48 + int (d mod 10)"

fun str_nat :: "nat \<Rightarrow> pystr" where
  "str_nat n = (if n < 10 then [digit_char n] else str_nat (n div 10) @ [digit_char (n mod 10)])"

declare str_nat.simps [simp del]

definition str_int :: "int \<Rightarrow> pystr" where
  "str_int i = (if i < 0 then 45 # str_nat (nat (- i)) else str_nat (nat i))"

definition fmt_02d :: "int \<Rightarrow> pystr" where
  "fmt_02d i = (let s = str_int i in replicate (2 - length s) 48 @ s)"

text \<open>\<open>int(x)\<close> on a number: the fraction is dropped, towards zero.\<close>

definition py_int :: "rat \<Rightarrow> int" where
  "py_int x = (if x < 0 then \<lceil>x\<rceil> else \<lfloor>x\<rfloor>)"

section \<open>Tables\<close>

datatype category = General | Technical | Behavioral | Problem_Solving

datatype difficulty = Beginner | Intermediate | Advanced

definition category_name :: "category \<Rightarrow> pystr" where
  "category_name c = (case c of General \<Rightarrow> (py ''General'') | Technical \<Rightarrow> (py ''Technical'')
     | Behavioral \<Rightarrow> (py ''Behavioral'') | Problem_Solving \<Rightarrow> (py ''Problem Solving''))"

definition difficulty_name :: "difficulty \<Rightarrow> pystr" where
  "difficulty_name d = (case d of Beginner \<Rightarrow> (py ''Beginner'') | Intermediate \<Rightarrow> (py ''Intermediate'')
     | Advanced \<Rightarrow> (py ''Advanced''))"

definition QUESTION_CATEGORIES :: "category \<Rightarrow> pystr list" where
  "QUESTION_CATEGORIES c = (case c of
     General \<Rightarrow>
       [(py ''Tell me about yourself.''),
        (py ''Why are you interested in this position?''),
        (py ''What are your strengths and weaknesses?''),
        (py ''Where do you see yourself in 5 years?''),
        (py ''Why should we hire you?''),
        (py ''Describe a challenging situation you faced and how you handled it.'')]
   | Technical \<Rightarrow>
       [(py ''Explain object-oriented programming principles.''),
        (py ''What is the difference between SQL and NoSQL databases?''),
        (py ''Describe your experience with version control systems.''),
        (py ''How do you ensure code quality and maintainability?''),
        (py ''Explain the concept of API design and RESTful services.''),
        (py ''What are design patterns and can you give examples?'')]
   | Behavioral \<Rightarrow>
       [(py ''Tell me about a time you had to work with a difficult team member.''),
        (py ''Describe a project where you had to meet a tight deadline.''),
        (py ''Give an example of when you had to learn something new quickly.''),
        (py ''Tell me about a mistake you made and how you handled it.''),
        (py ''Describe a time when you had to explain something complex to a non-technical person.'')]
   | Problem_Solving \<Rightarrow>
       [(py ''How would you approach debugging a system that's running slowly?''),
        (py ''Design a system for a library management system.''),
        (py ''How would you handle a situation where a client is unhappy with deliverables?''),
        (py ''Explain how you would prioritize tasks when everything seems urgent.''),
        (py ''Walk me through your problem-solving process.'')])"

text \<open>
  The \<open>time_multiplier\<close> entries of \<open>DIFFICULTY_LEVELS\<close>, 1.5, 1.0 and 0.8, as
  fractions. Python multiplies in binary floating point; on the times the sidebar
  offers (60, 90, 120, 180) the product is the same whole number.
\<close>

definition time_multiplier :: "difficulty \<Rightarrow> rat" where
  "time_multiplier d = (case d of Beginner \<Rightarrow> 3 / 2 | Intermediate \<Rightarrow> 1 | Advanced \<Rightarrow> 4 / 5)"

section \<open>The evaluation client\<close>

text \<open>
  One request to the chat service either yields the text of the first choice or raises
  inside the \<open>try\<close> block (a failed request, no choice, no text); the exception is
  kept by its message \<open>str(e)\<close>. A service is a function from the prompt and the number
  of the attempt to the outcome of that request.
\<close>

datatype api_outcome = Completion pystr | Raises pystr

type_synonym service = "pystr \<Rightarrow> nat \<Rightarrow> api_outcome"

text \<open>
  What a call of \<open>ask_chat\<close> gives back and does: \<open>reply\<close> is the returned value
  (\<open>None\<close> is Python's \<open>None\<close>, returned when the loop body never runs), \<open>attempts\<close>
  counts the requests made and \<open>slept\<close> the seconds spent in \<open>time.sleep(1)\<close>.
\<close>

record chat_result =
  reply :: "pystr option"
  attempts :: nat
  slept :: nat

definition cross_mark :: pystr where
  "cross_mark = [0x274C]"

definition client_unavailable :: pystr where
  "client_unavailable =
     cross_mark @ (py '' OpenAI client not available. Please check your API key and connection.'')"

definition error_after :: "nat \<Rightarrow> pystr \<Rightarrow> pystr" where
  "error_after max_retries e =
     cross_mark @ (py '' Error after '') @ str_nat max_retries @ (py '' attempts: '') @ e"

text \<open>The loop \<open>for attempt in range(max_retries)\<close>, over the attempts still to make.\<close>

fun ask_chat_loop :: "service \<Rightarrow> pystr \<Rightarrow> nat \<Rightarrow> nat list \<Rightarrow> chat_result" where
  "ask_chat_loop api prompt max_retries [] = \<lparr>reply = None, attempts = 0, slept = 0\<rparr>"
| "ask_chat_loop api prompt max_retries (attempt # rest) =
     (case api prompt attempt of
        Completion content \<Rightarrow> \<lparr>reply = Some (str_strip content), attempts = 1, slept = 0\<rparr>
      | Raises e \<Rightarrow>
          if int attempt = int max_retries - 1
          then \<lparr>reply = Some (error_after max_retries e), attempts = 1, slept = 0\<rparr>
          else (let r = ask_chat_loop api prompt max_retries rest
                in r\<lparr>attempts := attempts r + 1, slept := slept r + 1\<rparr>))"

text \<open>\<open>client\<close> says whether the module's client object was created.\<close>

definition ask_chat :: "bool \<Rightarrow> service \<Rightarrow> pystr \<Rightarrow> nat \<Rightarrow> chat_result" where
  "ask_chat client api prompt max_retries =
     (if \<not> client then \<lparr>reply = Some client_unavailable, attempts = 0, slept = 0\<rparr>
      else ask_chat_loop api prompt max_retries [0..<max_retries])"

section \<open>Name extraction and answer scoring\<close>

definition name_prompt :: "pystr \<Rightarrow> pystr" where
  \<open>name_prompt answer_text =
     (py ''\<newline>'') @
     (py ''    Extract ONLY the first name from this introduction. Rules:\<newline>'') @
     (py ''    - Return only the first name (no last names, titles, or extra words)\<newline>'') @
     (py ''    - If no clear first name is found, return "Candidate"\<newline>'') @
     (py ''    - If multiple names, return only the first one\<newline>'') @
     (py ''    \<newline>'') @
     (py ''    Introduction: "'') @ take 200 answer_text @ (py ''"\<newline>'') @
     (py ''    '')\<close>

text \<open>
  The part of \<open>extract_name\<close> after the reply has arrived. A reply that is \<open>None\<close> or
  empty is false in the test \<open>name and ...\<close>; \<open>name.split()[0]\<close> on a reply without
  a word raises, and the bare \<open>except\<close> turns that into the placeholder.
\<close>

definition clean_reply :: "char_db \<Rightarrow> pystr option \<Rightarrow> pystr" where
  "clean_reply db name =
     (case name of
        None \<Rightarrow> (py ''Candidate'')
      | Some n \<Rightarrow>
          if n \<noteq> [] \<and> length (str_split n) \<le> 2 then
            (case str_split n of
               [] \<Rightarrow> (py ''Candidate'')
             | w # _ \<Rightarrow>
                 (let clean_name = filter (\<lambda>c. alpha db c \<or> c = 45) w
                  in if clean_name \<noteq> [] then str_title db clean_name else (py ''Candidate'')))
          else (py ''Candidate''))"

text \<open>\<open>extract_name\<close> returns the name; the second component is the call of \<open>ask_chat\<close> it made, if any.\<close>

definition extract_name ::
  "char_db \<Rightarrow> bool \<Rightarrow> service \<Rightarrow> pystr \<Rightarrow> pystr \<times> chat_result option" where
  "extract_name db client api answer_text =
     (if str_strip answer_text = [] then ((py ''Candidate''), None)
      else (let r = ask_chat client api (name_prompt answer_text) 2
            in (clean_reply db (reply r), Some r)))"

datatype py_error = KeyError | ZeroDivisionError

text \<open>
  The dictionaries \<open>calculate_score\<close> builds itself have the keys \<open>score\<close> and
  \<open>feedback\<close>; a reply that starts with a brace is handed to \<open>json.loads\<close>, a parameter
  here (\<open>None\<close> when it raises), whose value is returned as it is.
\<close>

datatype 'j score_result = Score_Feedback int pystr | Parsed 'j

definition complexity_map :: "pystr \<Rightarrow> pystr option" where
  "complexity_map d =
     (if d = (py ''Beginner'') then Some (py ''entry-level'')
      else if d = (py ''Intermediate'') then Some (py ''mid-level professional'')
      else if d = (py ''Advanced'') then Some (py ''senior-level expert'')
      else None)"

definition score_prompt :: "pystr \<Rightarrow> pystr \<Rightarrow> pystr \<Rightarrow> pystr" where
  \<open>score_prompt level question answer =
     (py ''\<newline>'') @
     (py ''    As an expert interview coach, evaluate this '') @ level @ (py '' candidate's answer.\<newline>'') @
     (py ''    \<newline>'') @
     (py ''    Question: '') @ question @ (py ''\<newline>'') @
     (py ''    Answer: '') @ answer @ (py ''\<newline>'') @
     (py ''    \<newline>'') @
     (py ''    Provide a JSON response with:\<newline>'') @
     (py ''    {\<newline>'') @
     (py ''        "score": [0-10 integer],\<newline>'') @
     (py ''        "strengths": ["strength1", "strength2"],\<newline>'') @
     (py ''        "improvements": ["improvement1", "improvement2"],\<newline>'') @
     (py ''        "sample_answer": "brief improved version"\<newline>'') @
     (py ''    }\<newline>'') @
     (py ''    \<newline>'') @
     (py ''    Scoring criteria:\<newline>'') @
     (py ''    - Relevance and completeness (40%)\<newline>'') @
     (py ''    - Clarity and structure (30%)\<newline>'') @
     (py ''    - Specific examples and details (30%)\<newline>'') @
     (py ''    '')\<close>

definition calculate_score ::
  "(pystr \<Rightarrow> 'j option) \<Rightarrow> bool \<Rightarrow> service \<Rightarrow> pystr \<Rightarrow> pystr \<Rightarrow> pystr
     \<Rightarrow> py_error + ('j score_result \<times> chat_result option)" where
  "calculate_score json_loads client api answer question difficulty =
     (if str_strip answer = [] then Inr (Score_Feedback 0 (py ''No answer provided''), None)
      else
        (case complexity_map difficulty of
           None \<Rightarrow> Inl KeyError
         | Some level \<Rightarrow>
             (let r = ask_chat client api (score_prompt level question answer) 3
              in case reply r of
                   None \<Rightarrow> Inr (Score_Feedback 5 (py ''Unable to analyze answer at this time''), Some r)
                 | Some response \<Rightarrow>
                     if take 1 response = (py ''{'') then
                       (case json_loads response of
                          Some v \<Rightarrow> Inr (Parsed v, Some r)
                        | None \<Rightarrow>
                            Inr (Score_Feedback 5 (py ''Unable to analyze answer at this time''), Some r))
                     else Inr (Score_Feedback 5 response, Some r))))"

text \<open>\<open>format_time\<close>: minutes and seconds, two digits each.\<close>

definition format_time :: "int \<Rightarrow> pystr" where
  "format_time seconds = fmt_02d (seconds div 60) @ (py '':'') @ fmt_02d (seconds mod 60)"

text \<open>
  The formats \<open>{x:.0f}\<close> and \<open>{x:.1f}\<close> of a number that is not negative: rounding to
  the nearest, a tie to the even neighbour. Python rounds the binary floating-point
  value; the model rounds the exact fraction.
\<close>

definition round_half_even :: "rat \<Rightarrow> int" where
  "round_half_even x =
     (let f = \<lfloor>x\<rfloor>; r = x - of_int f
      in if r < 1 / 2 then f else if 1 / 2 < r then f + 1 else if even f then f else f + 1)"

definition fmt_0f :: "rat \<Rightarrow> pystr" where
  "fmt_0f x = str_int (round_half_even x)"

definition fmt_1f :: "rat \<Rightarrow> pystr" where
  "fmt_1f x = (let n = round_half_even (x * 10) in str_int (n div 10) @ (py ''.'') @ str_int (n mod 10))"

section \<open>Session state\<close>

datatype mode = Start_Mock_Interview | Practice_QA | Interview_Analytics

record answer_record =
  question :: pystr
  display_question :: pystr
  answer :: pystr
  time_taken :: int
  rec_category :: category
  rec_difficulty :: difficulty

text \<open>
  \<open>st.session_state\<close>, with the keys of \<open>init_session_state\<close> (\<open>interview_stats\<close> is
  never read or written again and is left out). \<open>current_q\<close>, \<open>candidate_name\<close>,
  \<open>start_time\<close> and \<open>feedback\<close> may be \<open>None\<close>.
\<close>

record session =
  mode :: mode
  candidate_name :: "pystr option"
  current_q :: "nat option"
  questions :: "pystr list"
  answers :: "answer_record list"
  time_limit :: int
  start_time :: "rat option"
  num_questions :: int
  feedback :: "pystr option"
  category :: category
  difficulty :: difficulty
  paused :: bool
  auto_refresh :: bool

text \<open>
  The state of a new browser session after \<open>init_session_state\<close>. On every later run
  all keys exist and \<open>init_session_state\<close> changes nothing.
\<close>

definition defaults :: session where
  "defaults =
     \<lparr>mode = Start_Mock_Interview, candidate_name = None, current_q = None, questions = [],
      answers = [], time_limit = 90, start_time = None, num_questions = 5, feedback = None,
      category = General, difficulty = Intermediate, paused = False, auto_refresh = True\<rparr>"

section \<open>One run of the script\<close>

text \<open>
  Streamlit runs the script from the top after every interaction and after every
  \<open>st.rerun()\<close>. What the run reads from outside the session is its input: the values of
  the sidebar widgets and of the answer box (which the auto-advance reads under the
  widget's key and Submit from the widget), the button that was pressed (no two in one
  run; \<open>None\<close> also stands for the buttons that leave the session alone), the
  character tables of the interpreter, the client and
  the service, the draws of \<open>random.shuffle\<close>, the readings of \<open>time.time()\<close> in the
  order the run takes them (timer, time taken, restart of the timer) and the date string.
\<close>

datatype questions_option = Q3 | Q5 | Q7 | Q10

datatype time_option = T60 | T90 | T120 | T180

definition questions_value :: "questions_option \<Rightarrow> int" where
  "questions_value v = (case v of Q3 \<Rightarrow> 3 | Q5 \<Rightarrow> 5 | Q7 \<Rightarrow> 7 | Q10 \<Rightarrow> 10)"

definition time_value :: "time_option \<Rightarrow> int" where
  "time_value v = (case v of T60 \<Rightarrow> 60 | T90 \<Rightarrow> 90 | T120 \<Rightarrow> 120 | T180 \<Rightarrow> 180)"

datatype button =
  Start_Interview | Submit_Answer | Pause_Resume | Skip_Question
  | New_Interview | View_Analytics | Practice_Mode

record inputs =
  radio_mode :: mode
  select_num_questions :: questions_option
  select_time_limit :: time_option
  select_category :: category
  select_difficulty :: difficulty
  check_auto_refresh :: bool
  text_area :: pystr
  clicked :: "button option"
  unicode :: char_db
  client :: bool
  api :: service
  rnd :: "nat \<Rightarrow> nat"
  now_timer :: rat
  now_taken :: rat
  now_restart :: rat
  today :: pystr

text \<open>
  What a run does besides changing the session: which handler ran (\<open>Failed\<close> when
  the script stopped with an exception, \<open>Rendered\<close> when it drew a screen), the remaining time
  the timer showed (\<open>None\<close> when no timer was drawn), the calls of \<open>extract_name\<close> and
  the calls of \<open>ask_chat\<close> for the feedback, and the text offered as the full report.
\<close>

datatype outcome =
  Refreshing | Started | Auto_Advanced | Submitted | Pause_Toggled | Skipped
  | Reset_Done | To_Analytics | To_Practice | Rendered | Failed py_error

record effects =
  outcome :: outcome
  shown_remaining :: "int option"
  name_calls :: nat
  feedback_calls :: nat
  report :: "pystr option"

definition fx :: "outcome \<Rightarrow> effects" where
  "fx out = \<lparr>outcome = out, shown_remaining = None, name_calls = 0, feedback_calls = 0,
             report = None\<rparr>"

text \<open>Truth of a value that is \<open>None\<close>, a number or a string.\<close>

definition truthy_time :: "rat option \<Rightarrow> bool" where
  "truthy_time t = (case t of None \<Rightarrow> False | Some x \<Rightarrow> x \<noteq> 0)"

definition truthy_str :: "pystr option \<Rightarrow> bool" where
  "truthy_str t = (case t of None \<Rightarrow> False | Some x \<Rightarrow> x \<noteq> [])"

text \<open>
  The test of the auto-refresh block at the top of the script. When it holds the run
  sleeps a second and calls \<open>st.rerun()\<close>, which ends the run there.
\<close>

definition live_timer :: "session \<Rightarrow> bool" where
  "live_timer s =
     ((case current_q s of None \<Rightarrow> False | Some q \<Rightarrow> q < length (questions s))
      \<and> truthy_time (start_time s) \<and> \<not> paused s \<and> auto_refresh s)"

text \<open>The sidebar stores the widget values in the session, the settings only in interview mode.\<close>

definition sidebar :: "inputs \<Rightarrow> session \<Rightarrow> session" where
  "sidebar inp s =
     (let s1 = s\<lparr>mode := radio_mode inp\<rparr>
      in if radio_mode inp = Start_Mock_Interview
         then s1\<lparr>num_questions := questions_value (select_num_questions inp),
                  time_limit := time_value (select_time_limit inp),
                  category := select_category inp,
                  difficulty := select_difficulty inp,
                  auto_refresh := check_auto_refresh inp\<rparr>
         else s1)"

text \<open>
  \<open>random.shuffle\<close>: for \<open>i\<close> from the last index down to 1, the entry at \<open>i\<close> is
  exchanged with the one at a random index \<open>j \<le> i\<close>, here the draw for \<open>i\<close> reduced
  modulo \<open>i + 1\<close>.
\<close>

fun shuffle_from :: "(nat \<Rightarrow> nat) \<Rightarrow> nat \<Rightarrow> 'a list \<Rightarrow> 'a list" where
  "shuffle_from r 0 xs = xs"
| "shuffle_from r (Suc i) xs =
     (let j = r (Suc i) mod (Suc i + 1)
      in shuffle_from r i (xs[Suc i := xs ! j, j := xs ! Suc i]))"

definition shuffle :: "(nat \<Rightarrow> nat) \<Rightarrow> 'a list \<Rightarrow> 'a list" where
  "shuffle r xs = shuffle_from r (length xs - 1) xs"

text \<open>The slice \<open>xs[:n]\<close>.\<close>

definition slice_to :: "int \<Rightarrow> 'a list \<Rightarrow> 'a list" where
  "slice_to n xs = (if 0 \<le> n then take (nat n) xs else take (length xs - nat (- n)) xs)"

text \<open>The handler of the Start Interview button.\<close>

definition start_interview :: "inputs \<Rightarrow> session \<Rightarrow> session" where
  "start_interview inp s =
     (let available_questions = shuffle (rnd inp) (QUESTION_CATEGORIES (category s));
          selected_questions = slice_to (num_questions s) available_questions;
          adjusted_time = py_int (of_int (time_limit s) * time_multiplier (difficulty s))
      in s\<lparr>questions := selected_questions, current_q := Some 0, answers := [],
            candidate_name := None, start_time := Some (now_restart inp), feedback := None,
            time_limit := adjusted_time, paused := False\<rparr>)"

text \<open>The question as shown: with the candidate's name in front from the second question on.\<close>

definition display_text :: "session \<Rightarrow> nat \<Rightarrow> pystr \<Rightarrow> pystr" where
  "display_text s q_index current_question =
     (case candidate_name s of
        Some n \<Rightarrow> if n \<noteq> [] \<and> 0 < q_index then n @ (py '', '') @ current_question
                  else current_question
      | None \<Rightarrow> current_question)"

text \<open>
  The timer block: skipped when \<open>start_time\<close> is false or the session is paused, else
  the remaining time that is shown.
\<close>

definition timer_check :: "inputs \<Rightarrow> session \<Rightarrow> int option" where
  "timer_check inp s =
     (case start_time s of
        None \<Rightarrow> None
      | Some t \<Rightarrow>
          if t \<noteq> 0 \<and> \<not> paused s
          then Some (max 0 (time_limit s - py_int (now_timer inp - t)))
          else None)"

text \<open>\<open>int(time.time() - start_time) if start_time else 0\<close>\<close>

definition time_since :: "rat option \<Rightarrow> rat \<Rightarrow> int" where
  "time_since start now =
     (case start of None \<Rightarrow> 0 | Some t \<Rightarrow> if t \<noteq> 0 then py_int (now - t) else 0)"

text \<open>The three steps the handlers share: append the record, name from the first answer, next question.\<close>

definition save_answer :: "session \<Rightarrow> nat \<Rightarrow> pystr \<Rightarrow> int \<Rightarrow> session" where
  "save_answer s q_index text taken =
     s\<lparr>answers := answers s @
         [\<lparr>question = questions s ! q_index,
           display_question = display_text s q_index (questions s ! q_index),
           answer = text, time_taken = taken,
           rec_category = category s, rec_difficulty = difficulty s\<rparr>]\<rparr>"

definition wants_name :: "nat \<Rightarrow> pystr \<Rightarrow> bool" where
  "wants_name q_index text = (q_index = 0 \<and> str_strip text \<noteq> [])"

definition name_from_first :: "inputs \<Rightarrow> nat \<Rightarrow> pystr \<Rightarrow> session \<Rightarrow> session" where
  "name_from_first inp q_index text s =
     (if wants_name q_index text
      then s\<lparr>candidate_name := Some (fst (extract_name (unicode inp) (client inp) (api inp) text))\<rparr>
      else s)"

definition next_question :: "inputs \<Rightarrow> nat \<Rightarrow> session \<Rightarrow> session" where
  "next_question inp q_index s = s\<lparr>current_q := Some (q_index + 1), start_time := Some (now_restart inp)\<rparr>"

definition auto_advance :: "inputs \<Rightarrow> session \<Rightarrow> nat \<Rightarrow> session" where
  "auto_advance inp s q_index =
     next_question inp q_index
       (name_from_first inp q_index (text_area inp)
          (save_answer s q_index (text_area inp) (time_limit s)))"

definition submit_answer :: "inputs \<Rightarrow> session \<Rightarrow> nat \<Rightarrow> session" where
  "submit_answer inp s q_index =
     next_question inp q_index
       (name_from_first inp q_index (text_area inp)
          (save_answer s q_index (text_area inp) (time_since (start_time s) (now_taken inp))))"

definition skip_question :: "inputs \<Rightarrow> session \<Rightarrow> nat \<Rightarrow> session" where
  "skip_question inp s q_index =
     next_question inp q_index
       (save_answer s q_index [] (time_since (start_time s) (now_taken inp)))"

definition toggle_pause :: "session \<Rightarrow> session" where
  "toggle_pause s = s\<lparr>paused := \<not> paused s\<rparr>"

text \<open>
  The screen of the question with index \<open>q_index\<close>, reached when
  \<open>q_index < len(questions)\<close>. The timer comes first; when it shows zero the run ends
  in the auto-advance and no button is looked at.
\<close>

definition in_progress :: "inputs \<Rightarrow> session \<Rightarrow> nat \<Rightarrow> session \<times> effects" where
  "in_progress inp s q_index =
     (let shown = timer_check inp s
      in if shown = Some 0
         then (auto_advance inp s q_index,
               (fx Auto_Advanced)\<lparr>shown_remaining := shown,
                  name_calls := (if wants_name q_index (text_area inp) then 1 else 0)\<rparr>)
         else if clicked inp = Some Submit_Answer
         then (submit_answer inp s q_index,
               (fx Submitted)\<lparr>shown_remaining := shown,
                  name_calls := (if wants_name q_index (text_area inp) then 1 else 0)\<rparr>)
         else if clicked inp = Some Pause_Resume
         then (toggle_pause s, (fx Pause_Toggled)\<lparr>shown_remaining := shown\<rparr>)
         else if clicked inp = Some Skip_Question
         then (skip_question inp s q_index, (fx Skipped)\<lparr>shown_remaining := shown\<rparr>)
         else (s, (fx Rendered)\<lparr>shown_remaining := shown\<rparr>))"

section \<open>The completed interview\<close>

definition total_time :: "answer_record list \<Rightarrow> int" where
  "total_time recs = sum_list (map time_taken recs)"

definition answered_count :: "answer_record list \<Rightarrow> nat" where
  "answered_count recs = length (filter (\<lambda>a. str_strip (answer a) \<noteq> []) recs)"

text \<open>\<open>(answered_count / len(answers)) * 100\<close>\<close>

definition completion_rate :: "nat \<Rightarrow> nat \<Rightarrow> py_error + rat" where
  "completion_rate done n = (if n = 0 then Inl ZeroDivisionError else Inr (of_nat done / of_nat n * 100))"

definition name_or_anonymous :: "session \<Rightarrow> pystr" where
  "name_or_anonymous s =
     (case candidate_name s of Some n \<Rightarrow> if n \<noteq> [] then n else (py ''Anonymous'') | None \<Rightarrow> (py ''Anonymous''))"

text \<open>
  The prompt for the feedback: a head, one block for each answer record (numbered from
  1, the answer cut at 500 characters), and the requests. \<open>rate\<close> is the completion rate.
\<close>

definition prompt_block :: "int \<Rightarrow> nat \<Rightarrow> answer_record \<Rightarrow> pystr" where
  "prompt_block limit idx ans =
     (py ''\<newline>'') @
     (py ''                    \<newline>'') @
     (py ''                Q'') @ str_nat idx @ (py '': '') @ question ans @ (py ''\<newline>'') @
     (py ''                Answer: '') @ take 500 (answer ans) @ (py ''...\<newline>'') @
     (py ''                Time Used: '') @ str_int (time_taken ans) @ (py ''s / '') @ str_int limit @ (py ''s\<newline>'') @
     (py ''                '')"

fun prompt_blocks :: "int \<Rightarrow> nat \<Rightarrow> answer_record list \<Rightarrow> pystr" where
  "prompt_blocks limit idx [] = []"
| "prompt_blocks limit idx (ans # rest) = prompt_block limit idx ans @ prompt_blocks limit (Suc idx) rest"

definition feedback_prompt :: "session \<Rightarrow> rat \<Rightarrow> pystr" where
  "feedback_prompt s rate =
     (py ''\<newline>'') @
     (py ''                As an expert interview coach, analyze this '') @ difficulty_name (difficulty s) @
       (py ''-level '') @ category_name (category s) @ (py '' interview performance.\<newline>'') @
     (py ''                \<newline>'') @
     (py ''                Candidate: '') @ name_or_anonymous s @ (py ''\<newline>'') @
     (py ''                Difficulty: '') @ difficulty_name (difficulty s) @ (py ''\<newline>'') @
     (py ''                Category: '') @ category_name (category s) @ (py ''\<newline>'') @
     (py ''                \<newline>'') @
     (py ''                Interview Performance Summary:\<newline>'') @
     (py ''                - Total Questions: '') @ str_nat (length (answers s)) @ (py ''\<newline>'') @
     (py ''                - Questions Answered: '') @ str_nat (answered_count (answers s)) @ (py ''\<newline>'') @
     (py ''                - Total Time: '') @ format_time (total_time (answers s)) @ (py ''\<newline>'') @
     (py ''                - Completion Rate: '') @ fmt_1f rate @ (py ''%\<newline>'') @
     (py ''                \<newline>'') @
     (py ''                Questions and Answers:\<newline>'') @
     (py ''                '') @
     prompt_blocks (time_limit s) 1 (answers s) @
     (py ''\<newline>'') @
     (py ''                \<newline>'') @
     (py ''                Please provide comprehensive feedback including:\<newline>'') @
     (py ''                \<newline>'') @
     (py ''                1. **Overall Performance Score (0-100):**\<newline>'') @
     (py ''                \<newline>'') @
     (py ''                2. **Strengths Demonstrated:**\<newline>'') @
     (py ''                   - List 3-4 key strengths observed\<newline>'') @
     (py ''                \<newline>'') @
     (py ''                3. **Areas for Improvement:**\<newline>'') @
     (py ''                   - List 3-4 specific areas to work on\<newline>'') @
     (py ''                \<newline>'') @
     (py ''                4. **Question-by-Question Analysis:**\<newline>'') @
     (py ''                   - Brief feedback on each answer (1-2 sentences each)\<newline>'') @
     (py ''                \<newline>'') @
     (py ''                5. **Recommendations for Next Steps:**\<newline>'') @
     (py ''                   - Specific actionable advice for improvement\<newline>'') @
     (py ''                \<newline>'') @
     (py ''                6. **Interview Readiness Assessment:**\<newline>'') @
     (py ''                   - Overall readiness level and what to focus on\<newline>'') @
     (py ''                \<newline>'') @
     (py ''                Format the response with clear headers and bullet points for mobile readability.\<newline>'') @
     (py ''                '')"

text \<open>
  The guard \<open>if not st.session_state.feedback\<close> and the call behind it; the number is
  the count of calls of \<open>ask_chat\<close> made.
\<close>

definition generate_feedback :: "inputs \<Rightarrow> session \<Rightarrow> rat \<Rightarrow> session \<times> nat" where
  "generate_feedback inp s rate =
     (if \<not> truthy_str (feedback s)
      then (s\<lparr>feedback := reply (ask_chat (client inp) (api inp) (feedback_prompt s rate) 3)\<rparr>, 1)
      else (s, 0))"

text \<open>The handler of the New Interview button: the loop over \<open>keys_to_reset\<close>.\<close>

definition new_interview :: "session \<Rightarrow> session" where
  "new_interview s =
     s\<lparr>current_q := None, questions := [], answers := [], candidate_name := None,
       start_time := None, feedback := None, paused := False\<rparr>"

text \<open>
  The full report \<open>results_text\<close>: a head, one block for each answer record in the order
  of the list, numbered from 1, and the feedback. The answer is printed by
  \<open>ans.get('answer', '[No answer provided]')\<close>; every record has the key \<open>answer\<close>,
  so the value of the key is what is printed.
\<close>

definition question_block :: "int \<Rightarrow> nat \<Rightarrow> answer_record \<Rightarrow> pystr" where
  "question_block limit i ans =
     (py ''\<newline>'') @
     (py ''Q'') @ str_nat i @ (py '': '') @ question ans @ (py ''\<newline>'') @
     (py ''Time Allocated: '') @ str_int limit @ (py ''s\<newline>'') @
     (py ''Time Used: '') @ str_int (time_taken ans) @ (py ''s\<newline>'') @
     (py ''\<newline>'') @
     (py ''Your Answer:\<newline>'') @
     answer ans @ (py ''\<newline>'') @
     (py ''\<newline>'') @
     replicate 50 61 @ (py ''\<newline>'')"

fun question_blocks :: "int \<Rightarrow> nat \<Rightarrow> answer_record list \<Rightarrow> pystr" where
  "question_blocks limit i [] = []"
| "question_blocks limit i (ans # rest) = question_block limit i ans @ question_blocks limit (Suc i) rest"

definition report_head :: "pystr \<Rightarrow> session \<Rightarrow> rat \<Rightarrow> pystr" where
  "report_head date s rate =
     (py ''\<newline>'') @
     (py ''AI MOCK INTERVIEW RESULTS\<newline>'') @
     (py ''========================\<newline>'') @
     (py ''Date: '') @ date @ (py ''\<newline>'') @
     (py ''Candidate: '') @ name_or_anonymous s @ (py ''\<newline>'') @
     (py ''Category: '') @ category_name (category s) @ (py ''\<newline>'') @
     (py ''Difficulty: '') @ difficulty_name (difficulty s) @ (py ''\<newline>'') @
     (py ''Total Questions: '') @ str_nat (length (answers s)) @ (py ''\<newline>'') @
     (py ''Questions Answered: '') @ str_nat (answered_count (answers s)) @ (py ''\<newline>'') @
     (py ''Completion Rate: '') @ fmt_0f rate @ (py ''%\<newline>'') @
     (py ''Total Time: '') @ format_time (total_time (answers s)) @ (py ''\<newline>'') @
     (py ''\<newline>'') @
     (py ''QUESTIONS & ANSWERS\<newline>'') @
     (py ''==================\<newline>'')"

definition report_tail :: "session \<Rightarrow> pystr" where
  "report_tail s =
     (py ''\<newline>'') @
     (py ''\<newline>'') @
     (py ''AI COACH FEEDBACK\<newline>'') @
     (py ''================\<newline>'') @
     (case feedback s of
        Some f \<Rightarrow> if f \<noteq> [] then f
                  else (py ''Feedback not available - please check your OpenAI connection'')
      | None \<Rightarrow> (py ''Feedback not available - please check your OpenAI connection'')) @ (py ''\<newline>'') @
     (py ''\<newline>'') @
     (py ''END OF REPORT\<newline>'') @
     (py ''=============\<newline>'') @
     (py ''Generated by AI Mock Interview Bot\<newline>'')"

definition results_text :: "pystr \<Rightarrow> session \<Rightarrow> rat \<Rightarrow> pystr" where
  "results_text date s rate =
     report_head date s rate @ question_blocks (time_limit s) 1 (answers s) @ report_tail s"

text \<open>
  The screen reached when \<open>current_q >= len(questions)\<close> and \<open>answers\<close> is not empty.
  The completion rate is computed first, for the metrics; the feedback follows, then the
  buttons, each ending the run, then the report for the download.
\<close>

definition completed_screen :: "inputs \<Rightarrow> session \<Rightarrow> session \<times> effects" where
  "completed_screen inp s =
     (case completion_rate (answered_count (answers s)) (length (answers s)) of
        Inl e \<Rightarrow> (s, fx (Failed e))
      | Inr rate \<Rightarrow>
          (let (s1, calls) = generate_feedback inp s rate
           in if clicked inp = Some New_Interview
              then (new_interview s1, (fx Reset_Done)\<lparr>feedback_calls := calls\<rparr>)
              else if clicked inp = Some View_Analytics
              then (s1\<lparr>mode := Interview_Analytics\<rparr>, (fx To_Analytics)\<lparr>feedback_calls := calls\<rparr>)
              else if clicked inp = Some Practice_Mode
              then (s1\<lparr>mode := Practice_QA\<rparr>, (fx To_Practice)\<lparr>feedback_calls := calls\<rparr>)
              else (s1, (fx Rendered)\<lparr>feedback_calls := calls,
                          report := Some (results_text (today inp) s1 rate)\<rparr>)))"

text \<open>
  The whole run. The practice and analytics pages read the session and do not change
  it. In interview mode the branch is chosen by \<open>current_q\<close>: unset, below the number of
  questions, or at the end with answers recorded.
\<close>

definition run_script :: "inputs \<Rightarrow> session \<Rightarrow> session \<times> effects" where
  "run_script inp s0 =
     (if live_timer s0 then (s0, fx Refreshing)
      else
        (let s = sidebar inp s0
         in case mode s of
              Practice_QA \<Rightarrow> (s, fx Rendered)
            | Interview_Analytics \<Rightarrow> (s, fx Rendered)
            | Start_Mock_Interview \<Rightarrow>
                (case current_q s of
                   None \<Rightarrow>
                     if clicked inp = Some Start_Interview
                     then (start_interview inp s, fx Started)
                     else (s, fx Rendered)
                 | Some q \<Rightarrow>
                     if q < length (questions s) then in_progress inp s q
                     else if length (questions s) \<le> q \<and> answers s \<noteq> [] then completed_screen inp s
                     else (s, fx Rendered))))"

text \<open>A sequence of runs: the final session and the effects of each run.\<close>

fun exec :: "inputs list \<Rightarrow> session \<Rightarrow> session" where
  "exec [] s = s"
| "exec (inp # rest) s = exec rest (fst (run_script inp s))"

fun trace :: "inputs list \<Rightarrow> session \<Rightarrow> effects list" where
  "trace [] s = []"
| "trace (inp # rest) s = snd (run_script inp s) # trace rest (fst (run_script inp s))"

section \<open>Notions used in the properties\<close>

text \<open>
  The session is on the results screen: the test of the last branch of the interview
  page, after the test of the branch before it has failed.
\<close>

definition completed :: "session \<Rightarrow> bool" where
  "completed s =
     (case current_q s of
        None \<Rightarrow> False
      | Some q \<Rightarrow> \<not> q < length (questions s) \<and> length (questions s) \<le> q \<and> answers s \<noteq> [])"

text \<open>What holds of the counters of an attempt in every session a run can produce.\<close>

definition attempt_inv :: "session \<Rightarrow> bool" where
  "attempt_inv s =
     (case current_q s of
        None \<Rightarrow> True
      | Some q \<Rightarrow> length (answers s) = q \<and> q \<le> length (questions s) \<and> questions s \<noteq> [])"

text \<open>
  The calls of \<open>extract_name\<close> since the last Start, along the effects of a sequence of
  runs; the first argument is the count so far.
\<close>

fun attempt_extractions :: "nat \<Rightarrow> effects list \<Rightarrow> nat" where
  "attempt_extractions n [] = n"
| "attempt_extractions n (e # es) =
     attempt_extractions (if outcome e = Started then 0 else n + name_calls e) es"

text \<open>
  The post-processing of the extractor's reply in the specification's words: of the
  first whitespace-delimited token of the reply, the characters that are alphabetic or a
  hyphen are kept and title-cased; the placeholder is returned when nothing is left or
  the reply has more than two words.
\<close>

definition first_token :: "pystr \<Rightarrow> pystr" where
  "first_token resp = (case str_split resp of [] \<Rightarrow> [] | w # _ \<Rightarrow> w)"

definition name_rule :: "char_db \<Rightarrow> pystr \<Rightarrow> pystr" where
  "name_rule db resp =
     (let cleaned = filter (\<lambda>c. alpha db c \<or> c = 45) (first_token resp)
      in if cleaned = [] \<or> 2 < length (str_split resp) then (py ''Candidate'') else str_title db cleaned)"

section \<open>Example runs\<close>

text \<open>
  Inputs and sessions for the concrete cases below; all their text is ASCII, and
  \<open>ascii_db\<close> holds the letters and case mappings of Unicode for the ASCII characters
  (no other character is a letter or cased in it). In \<open>idle\<close> the sidebar shows three
  questions of 60 seconds, General, Beginner, the live timer switched off; nothing is
  typed or pressed, every clock reading is 1000 and the service answers \<open>Ada\<close>.
\<close>

definition ascii_db :: char_db where
  "ascii_db =
     \<lparr>alpha = (\<lambda>c. (65 \<le> c \<and> c \<le> 90) \<or> (97 \<le> c \<and> c \<le> 122)),
      cased = (\<lambda>c. (65 \<le> c \<and> c \<le> 90) \<or> (97 \<le> c \<and> c \<le> 122)),
      title_of = (\<lambda>c. [if 97 \<le> c \<and> c \<le> 122 then c - 32 else c]),
      lower_at = (\<lambda>s i. [if 65 \<le> s ! i \<and> s ! i \<le> 90 then s ! i + 32 else s ! i])\<rparr>"

definition idle :: inputs where
  "idle =
     \<lparr>radio_mode = Start_Mock_Interview, select_num_questions = Q3, select_time_limit = T60,
      select_category = General, select_difficulty = Beginner, check_auto_refresh = False,
      text_area = [], clicked = None, unicode = ascii_db, client = True, api = (\<lambda>p k. Completion (py ''Ada'')),
      rnd = (\<lambda>i. 0), now_timer = 1000, now_taken = 1000, now_restart = 1000,
      today = (py ''2024-01-01 10:00:00'')\<rparr>"

definition press :: "button \<Rightarrow> inputs" where
  "press b = idle\<lparr>clicked := Some b\<rparr>"

definition silent :: inputs where
  "silent = idle\<lparr>api := (\<lambda>p k. Completion [])\<rparr>"

definition calm :: inputs where
  "calm = idle\<lparr>select_difficulty := Intermediate\<rparr>"

text \<open>
  A session with its first question on the screen, and one with all three questions
  skipped. Every handler ends in \<open>st.rerun()\<close>, so a run without a press follows each
  press.
\<close>

definition started :: session where
  "started = exec [press Start_Interview, idle] defaults"

definition finished :: session where
  "finished =
     exec [press Start_Interview, idle, press Skip_Question, idle, press Skip_Question, idle,
           press Skip_Question] defaults"

text \<open>
  A session at difficulty Intermediate whose first question started at 1000 and has
  been drawn once; pressing Pause or Resume, and a run without a press, at a given time.
\<close>

definition asked :: session where
  "asked = exec [calm\<lparr>clicked := Some Start_Interview\<rparr>, calm] defaults"

definition pause_at :: "rat \<Rightarrow> inputs" where
  "pause_at t = calm\<lparr>clicked := Some Pause_Resume, now_timer := t\<rparr>"

definition look_at :: "rat \<Rightarrow> inputs" where
  "look_at t = calm\<lparr>now_timer := t\<rparr>"

text \<open>Submitting an introduction while the service answers \<open>ada-LEE!\<close>.\<close>

definition introduce :: inputs where
  "introduce =
     (press Submit_Answer)\<lparr>text_area := py ''I am Ada'',
        api := (\<lambda>p k. Completion (py ''ada-LEE!''))\<rparr>"

text \<open>A finished session: the first answer typed and submitted, the second skipped, the third submitted empty.\<close>

definition answered :: session where
  "answered =
     exec [press Start_Interview, idle, (press Submit_Answer)\<lparr>text_area := (py ''I am Ada'')\<rparr>, idle,
           press Skip_Question, idle, press Submit_Answer] defaults"

section \<open>Blank answers and the retry loop\<close>

lemma strip_blank: "(str_strip a = []) = (\<forall>c\<in>set a. isspace c)"
proof
  assume "str_strip a = []"
  then have h: "\<forall>x\<in>set (dropWhile isspace a). isspace x"
    by (simp add: str_strip_def dropWhile_eq_Nil_conv)
  show "\<forall>c\<in>set a. isspace c"
  proof (cases "dropWhile isspace a")
    case Nil
    then show ?thesis by (simp add: dropWhile_eq_Nil_conv)
  next
    case (Cons x xs)
    then have "\<not> isspace x" using hd_dropWhile [of isspace a] by auto
    moreover have "isspace x" using h Cons by simp
    ultimately show ?thesis by simp
  qed
next
  assume "\<forall>c\<in>set a. isspace c"
  then have "dropWhile isspace a = []" by (simp add: dropWhile_eq_Nil_conv)
  then show "str_strip a = []" by (simp add: str_strip_def del: dropWhile_eq_Nil_conv)
qed

text \<open>
  C10: for every question and every difficulty, an answer that is empty or holds only
  whitespace (any whitespace of Unicode) is scored
  \<open>{"score": 0, "feedback": "No answer provided"}\<close> at once: \<open>calculate_score\<close>
  returns that dictionary and makes no call of \<open>ask_chat\<close>, so no request reaches the
  evaluation client.
\<close>

theorem calculate_score_blank_answer:
  "\<forall>c\<in>set a. isspace c \<Longrightarrow>
   calculate_score json_loads cl srv a q d = Inr (Score_Feedback 0 (py ''No answer provided''), None)"
  by (simp add: calculate_score_def strip_blank)

theorem calculate_score_blank_answer_witness:
  "isspace 0xA0 \<and> isspace 0x3000 \<and> isspace 0x20 \<and> isspace 0x0A \<and>
   calculate_score (\<lambda>r. Some (0::nat)) True (\<lambda>p k. Completion (py ''{}''))
       [0xA0, 0x3000, 0x20, 0x0A] (py ''Why?'') (py ''Advanced'')
     = Inr (Score_Feedback 0 (py ''No answer provided''), None) \<and>
   calculate_score (\<lambda>r. Some (0::nat)) True (\<lambda>p k. Completion (py ''{}'')) [] (py ''Why?'') (py ''Expert'')
     = Inr (Score_Feedback 0 (py ''No answer provided''), None)"
  using calculate_score_blank_answer [of "[0xA0, 0x3000, 0x20, 0x0A]" "\<lambda>r. Some (0::nat)" True
      "\<lambda>p k. Completion (py ''{}'')" "py ''Why?''" "py ''Advanced''"]
    calculate_score_blank_answer [of "[]" "\<lambda>r. Some (0::nat)" True
      "\<lambda>p k. Completion (py ''{}'')" "py ''Why?''" "py ''Expert''"]
  by (simp add: isspace_def)

lemma loop_bounds:
  "k < n \<Longrightarrow>
   attempts (ask_chat_loop srv p n [k..<n]) \<le> n - k \<and>
   1 \<le> attempts (ask_chat_loop srv p n [k..<n]) \<and>
   slept (ask_chat_loop srv p n [k..<n]) + 1 = attempts (ask_chat_loop srv p n [k..<n]) \<and>
   reply (ask_chat_loop srv p n [k..<n]) \<noteq> None"
proof (induction "n - k" arbitrary: k)
  case 0
  then show ?case by simp
next
  case (Suc d)
  have step: "[k..<n] = k # [Suc k..<n]" using Suc.prems by (simp add: upt_conv_Cons)
  show ?case
  proof (cases "srv p k")
    case (Completion content)
    then show ?thesis using Suc.prems by (simp add: step)
  next
    case (Raises e)
    show ?thesis
    proof (cases "int k = int n - 1")
      case True
      then show ?thesis using Raises Suc.prems by (simp add: step)
    next
      case False
      then have lt: "Suc k < n" using Suc.prems by linarith
      have d: "d = n - Suc k" using Suc.hyps(2) by simp
      from Suc.hyps(1) [OF d lt] show ?thesis using Raises False lt
        by (auto simp add: step Let_def)
    qed
  qed
qed

lemma loop_all_fail:
  "k < n \<Longrightarrow> \<forall>j. k \<le> j \<and> j < n \<longrightarrow> (\<exists>e. srv p j = Raises e) \<Longrightarrow>
   \<exists>e. reply (ask_chat_loop srv p n [k..<n]) = Some (error_after n e) \<and>
       srv p (n - 1) = Raises e \<and>
       attempts (ask_chat_loop srv p n [k..<n]) = n - k"
proof (induction "n - k" arbitrary: k)
  case 0
  then show ?case by simp
next
  case (Suc d)
  have step: "[k..<n] = k # [Suc k..<n]" using Suc.prems by (simp add: upt_conv_Cons)
  obtain e where e: "srv p k = Raises e" using Suc.prems by blast
  show ?case
  proof (cases "int k = int n - 1")
    case True
    then have one: "n - k = 1" using Suc.prems by linarith
    have last: "n - 1 = k" using one by linarith
    show ?thesis unfolding step last using e True one by simp
  next
    case False
    then have lt: "Suc k < n" using Suc.prems by linarith
    have d: "d = n - Suc k" using Suc.hyps(2) by simp
    have all: "\<forall>j. Suc k \<le> j \<and> j < n \<longrightarrow> (\<exists>e. srv p j = Raises e)" using Suc.prems by auto
    from Suc.hyps(1) [OF d lt all] show ?thesis using e False lt
      by (auto simp add: step Let_def)
  qed
qed

text \<open>
  C7: for every prompt, whatever the service does, a call of \<open>ask_chat\<close> with the retry
  budgets the program uses (3 by default, 2 for the name) makes at most 3 requests and
  sleeps one second between two consecutive requests, so one second less than it makes
  requests. It always returns a string, never \<open>None\<close>, and raises nothing. Without a
  client it makes no request and returns the cross mark U+274C followed by
  \<open>OpenAI client not available. Please check your API key and connection.\<close> When the
  client exists and every request raises, it has made all its requests and returns the
  cross mark followed by \<open>Error after n attempts:\<close> and the message of the last
  exception.
\<close>

theorem ask_chat_three_attempts:
  "0 < n \<Longrightarrow> n \<le> 3 \<Longrightarrow>
   attempts (ask_chat cl srv p n) \<le> 3 \<and>
   slept (ask_chat cl srv p n) = attempts (ask_chat cl srv p n) - 1 \<and>
   reply (ask_chat cl srv p n) \<noteq> None \<and>
   (\<not> cl \<longrightarrow>
      attempts (ask_chat cl srv p n) = 0 \<and>
      reply (ask_chat cl srv p n) =
        Some (0x274C # py '' OpenAI client not available. Please check your API key and connection.'')) \<and>
   (cl \<and> (\<forall>j<n. \<exists>e. srv p j = Raises e) \<longrightarrow>
      attempts (ask_chat cl srv p n) = n \<and>
      (\<exists>e. srv p (n - 1) = Raises e \<and>
           reply (ask_chat cl srv p n) =
             Some (0x274C # py '' Error after '' @ str_nat n @ py '' attempts: '' @ e)))"
proof (cases cl)
  case False
  then show ?thesis by (simp add: ask_chat_def client_unavailable_def cross_mark_def)
next
  case True
  assume n: "0 < n" "n \<le> 3"
  have b: "attempts (ask_chat_loop srv p n [0..<n]) \<le> n - 0 \<and>
   1 \<le> attempts (ask_chat_loop srv p n [0..<n]) \<and>
   slept (ask_chat_loop srv p n [0..<n]) + 1 = attempts (ask_chat_loop srv p n [0..<n]) \<and>
   reply (ask_chat_loop srv p n [0..<n]) \<noteq> None"
    using loop_bounds [OF n(1)] by blast
  have f: "(\<forall>j<n. \<exists>e. srv p j = Raises e) \<longrightarrow>
      (\<exists>e. reply (ask_chat_loop srv p n [0..<n]) = Some (error_after n e) \<and>
       srv p (n - 1) = Raises e \<and>
       attempts (ask_chat_loop srv p n [0..<n]) = n - 0)"
    using loop_all_fail [OF n(1), of srv p] by simp
  show ?thesis using True b f n by (auto simp add: ask_chat_def error_after_def cross_mark_def)
qed

theorem ask_chat_three_attempts_witness:
  "attempts (ask_chat True (\<lambda>p k. Raises (py ''timeout'')) (py ''Hello'') 3) = 3 \<and>
   slept (ask_chat True (\<lambda>p k. Raises (py ''timeout'')) (py ''Hello'') 3) = 2 \<and>
   reply (ask_chat True (\<lambda>p k. Raises (py ''timeout'')) (py ''Hello'') 3) =
     Some (0x274C # py '' Error after 3 attempts: timeout'') \<and>
   attempts (ask_chat False (\<lambda>p k. Raises (py ''timeout'')) (py ''Hello'') 3) = 0 \<and>
   reply (ask_chat False (\<lambda>p k. Raises (py ''timeout'')) (py ''Hello'') 3) =
     Some (0x274C # py '' OpenAI client not available. Please check your API key and connection.'')"
proof -
  have t: "0x274C # py '' Error after '' @ str_nat 3 @ py '' attempts: '' @ py ''timeout''
             = 0x274C # py '' Error after 3 attempts: timeout''"
    by code_simp
  show ?thesis
    using ask_chat_three_attempts [of 3 True "\<lambda>p k. Raises (py ''timeout'')" "py ''Hello''"]
      ask_chat_three_attempts [of 3 False "\<lambda>p k. Raises (py ''timeout'')" "py ''Hello''"]
    by (simp add: t)
qed

section \<open>The steps of a run\<close>

lemma sidebar_keeps [simp]:
  "current_q (sidebar inp s) = current_q s"
  "questions (sidebar inp s) = questions s"
  "answers (sidebar inp s) = answers s"
  "start_time (sidebar inp s) = start_time s"
  "feedback (sidebar inp s) = feedback s"
  "paused (sidebar inp s) = paused s"
  "candidate_name (sidebar inp s) = candidate_name s"
  "mode (sidebar inp s) = radio_mode inp"
  by (simp_all add: sidebar_def Let_def)

lemma sidebar_settings:
  "radio_mode inp = Start_Mock_Interview \<Longrightarrow>
   time_limit (sidebar inp s) = time_value (select_time_limit inp) \<and>
   num_questions (sidebar inp s) = questions_value (select_num_questions inp) \<and>
   category (sidebar inp s) = select_category inp \<and>
   difficulty (sidebar inp s) = select_difficulty inp \<and>
   auto_refresh (sidebar inp s) = check_auto_refresh inp"
  by (simp add: sidebar_def Let_def)

lemma fx_simps [simp]:
  "outcome (fx out) = out" "shown_remaining (fx out) = None" "name_calls (fx out) = 0"
  "feedback_calls (fx out) = 0" "report (fx out) = None"
  by (simp_all add: fx_def)

section \<open>Paused sessions\<close>

lemma timer_check_paused: "paused s \<Longrightarrow> timer_check inp s = None"
  by (simp add: timer_check_def split: option.splits)

lemma in_progress_paused:
  "paused s \<Longrightarrow> outcome (snd (in_progress inp s q)) \<noteq> Auto_Advanced \<and>
     shown_remaining (snd (in_progress inp s q)) = None"
  by (simp add: in_progress_def timer_check_paused Let_def)

lemma completed_screen_quiet:
  "outcome (snd (completed_screen inp s)) \<noteq> Auto_Advanced \<and>
   shown_remaining (snd (completed_screen inp s)) = None \<and>
   name_calls (snd (completed_screen inp s)) = 0"
  by (simp add: completed_screen_def Let_def split: sum.splits prod.splits)

text \<open>
  C8: while the session is paused the timeout never fires and the timer does not move:
  a run on a paused session skips the timer block, so it never ends in the auto-advance
  and it shows no remaining time; two runs on paused sessions, whatever the inputs and
  the clock, therefore report the same (no) remaining time.
\<close>

theorem paused_timer_frozen:
  "paused s \<and> paused s' \<longrightarrow>
     outcome (snd (run_script inp s)) \<noteq> Auto_Advanced \<and>
     shown_remaining (snd (run_script inp s)) = None \<and>
     shown_remaining (snd (run_script inp s)) = shown_remaining (snd (run_script inp' s'))"
proof -
  have one: "paused u \<Longrightarrow> outcome (snd (run_script i u)) \<noteq> Auto_Advanced \<and>
     shown_remaining (snd (run_script i u)) = None" for i u
    using in_progress_paused [of "sidebar i u" i] completed_screen_quiet [of i "sidebar i u"]
    by (simp add: run_script_def Let_def split: mode.splits option.splits)
  show ?thesis using one [of s inp] one [of s' inp'] by simp
qed

theorem paused_timer_frozen_witness:
  "paused (exec [pause_at 1015] asked) \<and>
   outcome (snd (run_script (look_at 2000) (exec [pause_at 1015] asked))) \<noteq> Auto_Advanced \<and>
   shown_remaining (snd (run_script (look_at 2000) (exec [pause_at 1015] asked))) =
     shown_remaining (snd (run_script (look_at 3000) (exec [pause_at 1015] asked)))"
proof -
  have p: "paused (exec [pause_at 1015] asked)" by code_simp
  show ?thesis
    using p paused_timer_frozen [of "exec [pause_at 1015] asked" "exec [pause_at 1015] asked"
      "look_at 2000" "look_at 3000"]
    by blast
qed

section \<open>Counting answers\<close>

lemma length_shuffle_from: "length (shuffle_from r i xs) = length xs"
  by (induction i arbitrary: xs) (simp_all add: Let_def)

lemma length_shuffle: "length (shuffle r xs) = length xs"
  by (simp add: shuffle_def length_shuffle_from)

lemma bank_size: "5 \<le> length (QUESTION_CATEGORIES c)"
  by (cases c) (simp_all add: QUESTION_CATEGORIES_def)

lemma questions_value_pos: "3 \<le> questions_value v"
  by (cases v) (simp_all add: questions_value_def)

lemma start_interview_fields:
  "current_q (start_interview inp s) = Some 0"
  "answers (start_interview inp s) = []"
  "questions (start_interview inp s) =
     slice_to (num_questions s) (shuffle (rnd inp) (QUESTION_CATEGORIES (category s)))"
  "feedback (start_interview inp s) = None"
  "candidate_name (start_interview inp s) = None"
  "paused (start_interview inp s) = False"
  "start_time (start_interview inp s) = Some (now_restart inp)"
  "time_limit (start_interview inp s) = py_int (of_int (time_limit s) * time_multiplier (difficulty s))"
  by (simp_all add: start_interview_def Let_def)

lemma started_questions:
  "3 \<le> num_questions s \<Longrightarrow> questions (start_interview inp s) \<noteq> []"
proof -
  assume n: "3 \<le> num_questions s"
  have "5 \<le> length (shuffle (rnd inp) (QUESTION_CATEGORIES (category s)))"
    by (simp add: length_shuffle bank_size)
  then have "0 < length (slice_to (num_questions s) (shuffle (rnd inp) (QUESTION_CATEGORIES (category s))))"
    using n by (auto simp add: slice_to_def)
  then show ?thesis by (simp add: start_interview_fields)
qed

lemma step_fields [simp]:
  "current_q (next_question inp q s) = Some (q + 1)"
  "questions (next_question inp q s) = questions s"
  "answers (next_question inp q s) = answers s"
  "feedback (next_question inp q s) = feedback s"
  "start_time (next_question inp q s) = Some (now_restart inp)"
  "paused (next_question inp q s) = paused s"
  "candidate_name (next_question inp q s) = candidate_name s"
  "current_q (name_from_first inp q a s) = current_q s"
  "questions (name_from_first inp q a s) = questions s"
  "answers (name_from_first inp q a s) = answers s"
  "feedback (name_from_first inp q a s) = feedback s"
  "paused (name_from_first inp q a s) = paused s"
  "current_q (save_answer s q a t) = current_q s"
  "questions (save_answer s q a t) = questions s"
  "feedback (save_answer s q a t) = feedback s"
  "paused (save_answer s q a t) = paused s"
  "candidate_name (save_answer s q a t) = candidate_name s"
  by (simp_all add: next_question_def name_from_first_def save_answer_def)

lemma save_answer_answers:
  "\<exists>r. answers (save_answer s q a t) = answers s @ [r] \<and> answer r = a \<and> time_taken r = t
      \<and> question r = questions s ! q"
  by (simp add: save_answer_def)

lemma handler_effects:
  "current_q (auto_advance inp s q) = Some (q + 1)"
  "current_q (submit_answer inp s q) = Some (q + 1)"
  "current_q (skip_question inp s q) = Some (q + 1)"
  "questions (auto_advance inp s q) = questions s"
  "questions (submit_answer inp s q) = questions s"
  "questions (skip_question inp s q) = questions s"
  "feedback (auto_advance inp s q) = feedback s"
  "feedback (submit_answer inp s q) = feedback s"
  "feedback (skip_question inp s q) = feedback s"
  "\<exists>r. answers (auto_advance inp s q) = answers s @ [r] \<and> answer r = text_area inp \<and> time_taken r = time_limit s"
  "\<exists>r. answers (submit_answer inp s q) = answers s @ [r] \<and> answer r = text_area inp"
  "\<exists>r. answers (skip_question inp s q) = answers s @ [r] \<and> answer r = []"
  by (simp_all add: auto_advance_def submit_answer_def skip_question_def)
     (simp_all add: save_answer_def)

lemma toggle_fields [simp]:
  "current_q (toggle_pause s) = current_q s"
  "questions (toggle_pause s) = questions s"
  "answers (toggle_pause s) = answers s"
  "feedback (toggle_pause s) = feedback s"
  "start_time (toggle_pause s) = start_time s"
  "paused (toggle_pause s) = (\<not> paused s)"
  by (simp_all add: toggle_pause_def)

lemma in_progress_cases:
  "(outcome (snd (in_progress inp s q)) = Auto_Advanced \<and> fst (in_progress inp s q) = auto_advance inp s q) \<or>
   (outcome (snd (in_progress inp s q)) = Submitted \<and> fst (in_progress inp s q) = submit_answer inp s q) \<or>
   (outcome (snd (in_progress inp s q)) = Skipped \<and> fst (in_progress inp s q) = skip_question inp s q) \<or>
   (outcome (snd (in_progress inp s q)) = Pause_Toggled \<and> fst (in_progress inp s q) = toggle_pause s) \<or>
   (outcome (snd (in_progress inp s q)) = Rendered \<and> fst (in_progress inp s q) = s)"
  by (simp add: in_progress_def Let_def)

lemma generate_feedback_fields [simp]:
  "current_q (fst (generate_feedback inp s rate)) = current_q s"
  "questions (fst (generate_feedback inp s rate)) = questions s"
  "answers (fst (generate_feedback inp s rate)) = answers s"
  "mode (fst (generate_feedback inp s rate)) = mode s"
  "category (fst (generate_feedback inp s rate)) = category s"
  "difficulty (fst (generate_feedback inp s rate)) = difficulty s"
  "num_questions (fst (generate_feedback inp s rate)) = num_questions s"
  "time_limit (fst (generate_feedback inp s rate)) = time_limit s"
  by (simp_all add: generate_feedback_def)

lemma completed_screen_cases:
  "(\<exists>e. outcome (snd (completed_screen inp s)) = Failed e \<and> fst (completed_screen inp s) = s \<and> answers s = []) \<or>
   (\<exists>rate. completion_rate (answered_count (answers s)) (length (answers s)) = Inr rate \<and>
     ((outcome (snd (completed_screen inp s)) = Reset_Done \<and> clicked inp = Some New_Interview \<and>
        fst (completed_screen inp s) = new_interview (fst (generate_feedback inp s rate))) \<or>
      (outcome (snd (completed_screen inp s)) = To_Analytics \<and>
        fst (completed_screen inp s) = (fst (generate_feedback inp s rate))\<lparr>mode := Interview_Analytics\<rparr>) \<or>
      (outcome (snd (completed_screen inp s)) = To_Practice \<and>
        fst (completed_screen inp s) = (fst (generate_feedback inp s rate))\<lparr>mode := Practice_QA\<rparr>) \<or>
      (outcome (snd (completed_screen inp s)) = Rendered \<and>
        fst (completed_screen inp s) = fst (generate_feedback inp s rate))))"
  by (cases "answers s = []")
     (auto simp add: completed_screen_def completion_rate_def Let_def split: prod.splits)

lemma new_interview_fields [simp]:
  "current_q (new_interview s) = None" "questions (new_interview s) = []"
  "answers (new_interview s) = []" "candidate_name (new_interview s) = None"
  "start_time (new_interview s) = None" "feedback (new_interview s) = None"
  "paused (new_interview s) = False" "mode (new_interview s) = mode s"
  "category (new_interview s) = category s" "difficulty (new_interview s) = difficulty s"
  "num_questions (new_interview s) = num_questions s" "time_limit (new_interview s) = time_limit s"
  "auto_refresh (new_interview s) = auto_refresh s"
  by (simp_all add: new_interview_def)

text \<open>The shape of a run.\<close>

lemma run_cases:
  "(run_script inp s = (s, fx Refreshing) \<and> live_timer s) \<or>
   (\<not> live_timer s \<and> radio_mode inp \<noteq> Start_Mock_Interview \<and>
      run_script inp s = (sidebar inp s, fx Rendered)) \<or>
   (\<not> live_timer s \<and> radio_mode inp = Start_Mock_Interview \<and> current_q s = None \<and>
      clicked inp = Some Start_Interview \<and>
      run_script inp s = (start_interview inp (sidebar inp s), fx Started)) \<or>
   (\<not> live_timer s \<and> radio_mode inp = Start_Mock_Interview \<and> current_q s = None \<and>
      clicked inp \<noteq> Some Start_Interview \<and> run_script inp s = (sidebar inp s, fx Rendered)) \<or>
   (\<exists>q. \<not> live_timer s \<and> radio_mode inp = Start_Mock_Interview \<and> current_q s = Some q \<and>
      q < length (questions s) \<and> run_script inp s = in_progress inp (sidebar inp s) q) \<or>
   (\<exists>q. \<not> live_timer s \<and> radio_mode inp = Start_Mock_Interview \<and> current_q s = Some q \<and>
      length (questions s) \<le> q \<and> answers s \<noteq> [] \<and>
      run_script inp s = completed_screen inp (sidebar inp s)) \<or>
   (\<exists>q. \<not> live_timer s \<and> radio_mode inp = Start_Mock_Interview \<and> current_q s = Some q \<and>
      length (questions s) \<le> q \<and> answers s = [] \<and> run_script inp s = (sidebar inp s, fx Rendered))"
  by (cases "radio_mode inp"; cases "current_q s")
     (auto simp add: run_script_def Let_def)

lemma in_progress_outcome:
  "outcome (snd (in_progress inp s q)) \<noteq> Reset_Done \<and>
   outcome (snd (in_progress inp s q)) \<noteq> Started \<and>
   outcome (snd (in_progress inp s q)) \<noteq> Refreshing"
  using in_progress_cases [of inp s q] by auto

lemma completed_screen_outcome:
  "outcome (snd (completed_screen inp s)) \<noteq> Submitted \<and>
   outcome (snd (completed_screen inp s)) \<noteq> Skipped \<and>
   outcome (snd (completed_screen inp s)) \<noteq> Auto_Advanced \<and>
   outcome (snd (completed_screen inp s)) \<noteq> Started \<and>
   outcome (snd (completed_screen inp s)) \<noteq> Refreshing \<and>
   outcome (snd (completed_screen inp s)) \<noteq> Pause_Toggled"
  using completed_screen_cases [of inp s] by auto

lemma reset_run:
  assumes "outcome (snd (run_script inp s)) = Reset_Done"
  shows "\<exists>q. current_q s = Some q \<and> length (questions s) \<le> q \<and> answers s \<noteq> [] \<and>
           run_script inp s = completed_screen inp (sidebar inp s)"
  using run_cases [of inp s] assms in_progress_outcome [of inp "sidebar inp s"]
  by (elim disjE exE conjE) simp_all

lemma progress_run:
  assumes "outcome (snd (run_script inp s)) = Submitted \<or> outcome (snd (run_script inp s)) = Skipped
           \<or> outcome (snd (run_script inp s)) = Auto_Advanced \<or> outcome (snd (run_script inp s)) = Pause_Toggled"
  shows "\<exists>q. current_q s = Some q \<and> q < length (questions s) \<and> radio_mode inp = Start_Mock_Interview \<and>
           \<not> live_timer s \<and> run_script inp s = in_progress inp (sidebar inp s) q"
  using run_cases [of inp s] assms completed_screen_outcome [of inp "sidebar inp s"]
  by (elim disjE exE conjE) simp_all

lemma transition_step:
  assumes "outcome (snd (run_script inp s)) = Submitted \<or> outcome (snd (run_script inp s)) = Skipped
           \<or> outcome (snd (run_script inp s)) = Auto_Advanced"
  shows "\<exists>q r. current_q s = Some q \<and> q < length (questions s) \<and>
           current_q (fst (run_script inp s)) = Some (q + 1) \<and>
           answers (fst (run_script inp s)) = answers s @ [r] \<and>
           questions (fst (run_script inp s)) = questions s"
proof -
  from progress_run [of inp s] assms
  obtain q where q: "current_q s = Some q" "q < length (questions s)"
      "run_script inp s = in_progress inp (sidebar inp s) q"
    by blast
  from in_progress_cases [of inp "sidebar inp s" q] assms q(3)
  have "fst (run_script inp s) = auto_advance inp (sidebar inp s) q \<or>
        fst (run_script inp s) = submit_answer inp (sidebar inp s) q \<or>
        fst (run_script inp s) = skip_question inp (sidebar inp s) q"
    by auto
  then show ?thesis
    using q(1,2) handler_effects [of inp "sidebar inp s" q] by auto
qed

lemma inv_step: "attempt_inv s \<Longrightarrow> attempt_inv (fst (run_script inp s))"
proof -
  assume inv: "attempt_inv s"
  from run_cases [of inp s]
  consider
    (same) "fst (run_script inp s) = s"
  | (side) "fst (run_script inp s) = sidebar inp s"
  | (start) "radio_mode inp = Start_Mock_Interview"
      "fst (run_script inp s) = start_interview inp (sidebar inp s)"
  | (prog) q where "current_q s = Some q" "q < length (questions s)"
      "run_script inp s = in_progress inp (sidebar inp s) q"
  | (fin) q where "current_q s = Some q" "length (questions s) \<le> q"
      "run_script inp s = completed_screen inp (sidebar inp s)"
    by (elim disjE exE conjE) simp_all
  then show ?thesis
  proof cases
    case same
    then show ?thesis using inv by simp
  next
    case side
    then show ?thesis using inv by (simp add: attempt_inv_def split: option.splits)
  next
    case start
    have "3 \<le> num_questions (sidebar inp s)"
      using sidebar_settings [OF start(1), of s] questions_value_pos by simp
    then have "questions (start_interview inp (sidebar inp s)) \<noteq> []"
      by (rule started_questions)
    then show ?thesis using start(2)
      by (simp add: attempt_inv_def start_interview_fields(1,2))
  next
    case prog
    from in_progress_cases [of inp "sidebar inp s" q] prog(3)
    consider "fst (run_script inp s) = auto_advance inp (sidebar inp s) q"
      | "fst (run_script inp s) = submit_answer inp (sidebar inp s) q"
      | "fst (run_script inp s) = skip_question inp (sidebar inp s) q"
      | "fst (run_script inp s) = toggle_pause (sidebar inp s)"
      | "fst (run_script inp s) = sidebar inp s"
      by auto
    then show ?thesis
      using inv prog(1,2) handler_effects [of inp "sidebar inp s" q]
      by cases (auto simp add: attempt_inv_def split: option.splits)
  next
    case fin
    from completed_screen_cases [of inp "sidebar inp s"] fin(3)
    show ?thesis using inv fin(1,2) by (auto simp add: attempt_inv_def split: option.splits)
  qed
qed

lemma inv_exec: "attempt_inv s \<Longrightarrow> attempt_inv (exec inps s)"
  by (induction inps arbitrary: s) (simp_all add: inv_step)

lemma inv_defaults: "attempt_inv defaults"
  by (simp add: attempt_inv_def defaults_def)

lemma inv_completed:
  "attempt_inv s \<Longrightarrow> completed s = (current_q s = Some (length (questions s)))"
  by (cases "current_q s") (auto simp add: attempt_inv_def completed_def)



section \<open>Reset\<close>



section \<open>The candidate's name\<close>

lemma clean_reply_rule: "clean_reply db (Some resp) = name_rule db resp"
  by (cases "str_split resp")
     (auto simp add: clean_reply_def name_rule_def first_token_def Let_def str_split_def)

lemma split_from_space:
  "isspace c \<Longrightarrow> split_from w (xs @ c # ys) = split_from w (xs @ [c]) @ split_from [] ys"
  by (induction xs arbitrary: w) auto

lemma error_words: "2 < length (str_split (error_after 2 e))"
proof -
  let ?p = "cross_mark @ py '' Error after '' @ str_nat 2 @ py '' attempts:''"
  have a: "py '' attempts: '' = py '' attempts:'' @ [32]" by code_simp
  have w: "length (split_from [] (?p @ [32])) = 5" by code_simp
  have "error_after 2 e = ?p @ 32 # e" by (simp add: error_after_def a)
  then have "str_split (error_after 2 e) = split_from [] (?p @ [32]) @ split_from [] e"
    using split_from_space [of 32 "[]" ?p e] by (simp add: str_split_def isspace_def)
  then show ?thesis using w by simp
qed

lemma unavailable_words: "2 < length (str_split client_unavailable)"
  by code_simp

lemma name_rule_many: "2 < length (str_split resp) \<Longrightarrow> name_rule db resp = py ''Candidate''"
  by (simp add: name_rule_def Let_def)

lemma extract_name_failure:
  assumes "\<not> cl \<or> (\<forall>j<2. \<exists>e. srv (name_prompt a) j = Raises e)"
  shows "fst (extract_name db cl srv a) = py ''Candidate''"
proof (cases "str_strip a = []")
  case True
  then show ?thesis by (simp add: extract_name_def)
next
  case False
  show ?thesis
  proof (cases cl)
    case f: False
    then show ?thesis using False unavailable_words
      by (simp add: extract_name_def ask_chat_def Let_def clean_reply_rule name_rule_many)
  next
    case True
    then have all: "\<forall>j. 0 \<le> j \<and> j < 2 \<longrightarrow> (\<exists>e. srv (name_prompt a) j = Raises e)" using assms by simp
    have "\<exists>e. reply (ask_chat_loop srv (name_prompt a) 2 [0..<2]) = Some (error_after 2 e)"
      using loop_all_fail [of 0 2 srv "name_prompt a", OF _ all] by auto
    then show ?thesis using False True error_words
      by (auto simp add: extract_name_def ask_chat_def Let_def clean_reply_rule name_rule_many)
  qed
qed

lemma handler_names:
  "candidate_name (auto_advance inp s q) =
     (if wants_name q (text_area inp) then Some (fst (extract_name (unicode inp) (client inp) (api inp) (text_area inp)))
      else candidate_name s)"
  "candidate_name (submit_answer inp s q) =
     (if wants_name q (text_area inp) then Some (fst (extract_name (unicode inp) (client inp) (api inp) (text_area inp)))
      else candidate_name s)"
  "candidate_name (skip_question inp s q) = candidate_name s"
  by (simp_all add: auto_advance_def submit_answer_def skip_question_def name_from_first_def)

lemma in_progress_names:
  "name_calls (snd (in_progress inp s q)) \<le> 1 \<and>
   (0 < name_calls (snd (in_progress inp s q)) \<longrightarrow>
      wants_name q (text_area inp) \<and>
      (fst (in_progress inp s q) = auto_advance inp s q \<or> fst (in_progress inp s q) = submit_answer inp s q))"
  by (simp add: in_progress_def Let_def)

lemma run_names:
  "name_calls (snd (run_script inp s)) \<le> 1 \<and>
   (0 < name_calls (snd (run_script inp s)) \<longrightarrow>
      current_q s = Some 0 \<and> str_strip (text_area inp) \<noteq> [] \<and>
      current_q (fst (run_script inp s)) = Some 1 \<and>
      candidate_name (fst (run_script inp s)) =
        Some (fst (extract_name (unicode inp) (client inp) (api inp) (text_area inp))) \<and>
      (\<exists>r. answers (fst (run_script inp s)) = answers s @ [r] \<and> answer r = text_area inp))"
  using run_cases [of inp s] completed_screen_quiet [of inp "sidebar inp s"]
proof (elim disjE exE conjE)
  fix q
  assume q: "current_q s = Some q" "run_script inp s = in_progress inp (sidebar inp s) q"
  show ?thesis
    using in_progress_names [of inp "sidebar inp s" q] q
      handler_effects [of inp "sidebar inp s" q] handler_names [of inp "sidebar inp s" q]
    by (auto simp add: wants_name_def)
qed simp_all

lemma zero_kept:
  assumes "outcome (snd (run_script inp s)) \<noteq> Started"
    and "current_q (fst (run_script inp s)) = Some 0"
  shows "current_q s = Some 0"
  using run_cases [of inp s] assms
proof (elim disjE exE conjE)
  fix q
  assume q: "current_q s = Some q" "run_script inp s = in_progress inp (sidebar inp s) q"
  show ?thesis
    using in_progress_cases [of inp "sidebar inp s" q] q assms(2)
      handler_effects(1,2,3) [of inp "sidebar inp s" q]
    by auto
next
  fix q
  assume q: "current_q s = Some q" "run_script inp s = completed_screen inp (sidebar inp s)"
  show ?thesis
    using completed_screen_cases [of inp "sidebar inp s"] q assms(2)
    by auto
qed simp_all

lemma attempt_bound:
  "n \<le> 1 \<Longrightarrow> (current_q s = Some 0 \<longrightarrow> n = 0) \<Longrightarrow> attempt_extractions n (trace inps s) \<le> 1"
proof (induction inps arbitrary: s n)
  case Nil
  then show ?case by simp
next
  case (Cons inp rest)
  let ?e = "snd (run_script inp s)" and ?t = "fst (run_script inp s)"
  let ?n = "if outcome ?e = Started then 0 else n + name_calls ?e"
  have a: "?n \<le> 1"
    using Cons.prems run_names [of inp s] by auto
  have b: "current_q ?t = Some 0 \<longrightarrow> ?n = 0"
    using Cons.prems run_names [of inp s] zero_kept [of inp s] by auto
  show ?case using Cons.IH [OF a b] by simp
qed

text \<open>
  C6: between two Starts \<open>extract_name\<close> is called at most once. A run calls it only
  for the question with index 0 and a text that is not empty, and stores its result as
  the candidate's name next to the record of that answer. The name it returns is the
  placeholder for a blank text; otherwise it follows the rule \<open>name_rule\<close> on the reply
  (first token, letters and hyphens only, title case, placeholder when nothing is left
  or the reply has more than two words), whatever the letters and case mappings of the
  interpreter are. When the client is missing or both requests raise, the name is the
  placeholder.
\<close>

theorem name_extracted_once:
  "attempt_extractions 0 (trace inps defaults) \<le> 1 \<and>
   (0 < name_calls (snd (run_script inp s)) \<longrightarrow>
      current_q s = Some 0 \<and> text_area inp \<noteq> [] \<and>
      candidate_name (fst (run_script inp s)) =
        Some (fst (extract_name (unicode inp) (client inp) (api inp) (text_area inp))) \<and>
      (\<exists>r. answers (fst (run_script inp s)) = answers s @ [r] \<and> answer r = text_area inp)) \<and>
   fst (extract_name db cl srv a) =
     (if str_strip a = [] then py ''Candidate''
      else case reply (ask_chat cl srv (name_prompt a) 2) of
             None \<Rightarrow> py ''Candidate'' | Some resp \<Rightarrow> name_rule db resp) \<and>
   (\<not> cl \<or> (\<forall>j<2. \<exists>e. srv (name_prompt a) j = Raises e) \<longrightarrow>
      fst (extract_name db cl srv a) = py ''Candidate'')"
proof -
  have a: "attempt_extractions 0 (trace inps defaults) \<le> 1"
    by (rule attempt_bound) simp_all
  have b: "0 < name_calls (snd (run_script inp s)) \<longrightarrow>
      current_q s = Some 0 \<and> text_area inp \<noteq> [] \<and>
      candidate_name (fst (run_script inp s)) =
        Some (fst (extract_name (unicode inp) (client inp) (api inp) (text_area inp))) \<and>
      (\<exists>r. answers (fst (run_script inp s)) = answers s @ [r] \<and> answer r = text_area inp)"
    using run_names [of inp s] by (auto simp add: str_strip_def)
  have c: "fst (extract_name db cl srv a) =
     (if str_strip a = [] then py ''Candidate''
      else case reply (ask_chat cl srv (name_prompt a) 2) of
             None \<Rightarrow> py ''Candidate'' | Some resp \<Rightarrow> name_rule db resp)"
    by (cases "reply (ask_chat cl srv (name_prompt a) 2)")
       (simp_all add: extract_name_def Let_def clean_reply_rule, simp add: clean_reply_def)
  have d: "\<not> cl \<or> (\<forall>j<2. \<exists>e. srv (name_prompt a) j = Raises e) \<longrightarrow>
      fst (extract_name db cl srv a) = py ''Candidate''"
    using extract_name_failure [of cl srv a db] by blast
  show ?thesis using a b c d by blast
qed

text \<open>
  At a concrete session: the introduction is submitted for the first question, the
  service answers \<open>ada-LEE!\<close>, and the name stored is \<open>Ada-Lee\<close>; without a client the
  name is the placeholder.
\<close>

theorem name_extracted_once_witness:
  "name_calls (snd (run_script introduce started)) = 1 \<and>
   current_q started = Some 0 \<and>
   candidate_name (fst (run_script introduce started)) = Some (py ''Ada-Lee'') \<and>
   name_rule ascii_db (py ''ada-LEE!'') = py ''Ada-Lee'' \<and>
   fst (extract_name ascii_db False (\<lambda>p k. Completion (py ''ada-LEE!'')) (py ''I am Ada'')) = py ''Candidate''"
proof -
  have n: "name_calls (snd (run_script introduce started)) = 1"
    by code_simp
  have p: "0 < name_calls (snd (run_script introduce started))"
    using n by simp
  have i: "unicode introduce = ascii_db" "client introduce = True"
    "api introduce = (\<lambda>p k. Completion (py ''ada-LEE!''))"
    "text_area introduce = py ''I am Ada''"
    by (simp_all add: introduce_def press_def idle_def)
  have e: "fst (extract_name ascii_db True (\<lambda>p k. Completion (py ''ada-LEE!'')) (py ''I am Ada''))
             = py ''Ada-Lee''"
    "name_rule ascii_db (py ''ada-LEE!'') = py ''Ada-Lee''"
    by code_simp+
  have t: "0 < name_calls (snd (run_script introduce started)) \<longrightarrow>
      current_q started = Some 0 \<and>
      candidate_name (fst (run_script introduce started)) =
        Some (fst (extract_name ascii_db True (\<lambda>p k. Completion (py ''ada-LEE!'')) (py ''I am Ada'')))"
    and f: "fst (extract_name ascii_db False (\<lambda>p k. Completion (py ''ada-LEE!'')) (py ''I am Ada''))
             = py ''Candidate''"
    using name_extracted_once [of "[]" introduce started ascii_db False
        "\<lambda>p k. Completion (py ''ada-LEE!'')" "py ''I am Ada''"]
    unfolding i by blast+
  show ?thesis using n p t f e by simp
qed

section \<open>Feedback\<close>

lemma completed_not_live: "completed s \<Longrightarrow> \<not> live_timer s"
  by (auto simp add: completed_def live_timer_def split: option.splits)

lemma in_progress_feedback:
  "feedback_calls (snd (in_progress inp s q)) = 0"
  by (simp add: in_progress_def Let_def)

lemma completed_screen_feedback:
  "answers s \<noteq> [] \<Longrightarrow>
   feedback_calls (snd (completed_screen inp s)) = (if truthy_str (feedback s) then 0 else 1) \<and>
   (\<not> truthy_str (feedback s) \<and> clicked inp \<noteq> Some New_Interview \<longrightarrow>
      (\<exists>rate. feedback (fst (completed_screen inp s)) =
         reply (ask_chat (client inp) (api inp) (feedback_prompt s rate) 3))) \<and>
   (truthy_str (feedback s) \<and> clicked inp \<noteq> Some New_Interview \<longrightarrow>
      feedback (fst (completed_screen inp s)) = feedback s \<and>
      current_q (fst (completed_screen inp s)) = current_q s \<and>
      questions (fst (completed_screen inp s)) = questions s \<and>
      answers (fst (completed_screen inp s)) = answers s)"
  by (auto simp add: completed_screen_def completion_rate_def generate_feedback_def Let_def)

lemma run_feedback_calls:
  "feedback_calls (snd (run_script inp s)) =
     (if completed s \<and> radio_mode inp = Start_Mock_Interview \<and> \<not> truthy_str (feedback s) then 1 else 0)"
  using run_cases [of inp s]
proof (elim disjE exE conjE)
  fix q
  assume "current_q s = Some q" "q < length (questions s)"
    "run_script inp s = in_progress inp (sidebar inp s) q"
  then show ?thesis by (simp add: in_progress_feedback completed_def)
next
  fix q
  assume "current_q s = Some q" "length (questions s) \<le> q" "answers s \<noteq> []"
    "run_script inp s = completed_screen inp (sidebar inp s)" "radio_mode inp = Start_Mock_Interview"
  then show ?thesis
    using completed_screen_feedback [of "sidebar inp s" inp] by (simp add: completed_def)
qed (auto simp add: completed_def live_timer_def split: option.splits)

lemma run_feedback_stored:
  assumes "completed s" "radio_mode inp = Start_Mock_Interview" "\<not> truthy_str (feedback s)"
    "clicked inp \<noteq> Some New_Interview"
  shows "\<exists>rate. feedback (fst (run_script inp s)) =
           reply (ask_chat (client inp) (api inp) (feedback_prompt (sidebar inp s) rate) 3)"
proof -
  from assms(1) obtain q where q: "current_q s = Some q" "length (questions s) \<le> q" "answers s \<noteq> []"
    by (auto simp add: completed_def split: option.splits)
  have "run_script inp s = completed_screen inp (sidebar inp s)"
    using q assms(2) completed_not_live [OF assms(1)] by (simp add: run_script_def Let_def)
  then show ?thesis
    using completed_screen_feedback [of "sidebar inp s" inp] q(3) assms(3,4) by simp
qed

lemma run_feedback_kept:
  assumes "completed s" "truthy_str (feedback s)" "clicked inp \<noteq> Some New_Interview"
  shows "completed (fst (run_script inp s)) \<and> feedback (fst (run_script inp s)) = feedback s"
  using run_cases [of inp s]
proof (elim disjE exE conjE)
  fix q
  assume "current_q s = Some q" "q < length (questions s)"
  then show ?thesis using assms(1) by (simp add: completed_def)
next
  fix q
  assume a: "current_q s = Some q" "length (questions s) \<le> q" "answers s \<noteq> []"
    "run_script inp s = completed_screen inp (sidebar inp s)"
  show ?thesis
    using completed_screen_feedback [of "sidebar inp s" inp] a assms
    by (simp add: completed_def)
next
  fix q
  assume "current_q s = Some q" "answers s = []"
  then show ?thesis using assms(1) by (simp add: completed_def)
qed (use assms(1) in \<open>auto simp add: completed_def live_timer_def split: option.splits\<close>)

lemma feedback_kept_exec:
  "completed s \<Longrightarrow> truthy_str (feedback s) \<Longrightarrow> \<forall>i\<in>set inps. clicked i \<noteq> Some New_Interview \<Longrightarrow>
   completed (exec inps s) \<and> feedback (exec inps s) = feedback s \<and>
   sum_list (map feedback_calls (trace inps s)) = 0"
proof (induction inps arbitrary: s)
  case Nil
  then show ?case by simp
next
  case (Cons inp rest)
  have k: "completed (fst (run_script inp s)) \<and> feedback (fst (run_script inp s)) = feedback s"
    using run_feedback_kept [of s inp] Cons.prems by simp
  have z: "feedback_calls (snd (run_script inp s)) = 0"
    using Cons.prems(2) by (simp add: run_feedback_calls)
  have "completed (exec rest (fst (run_script inp s))) \<and>
        feedback (exec rest (fst (run_script inp s))) = feedback (fst (run_script inp s)) \<and>
        sum_list (map feedback_calls (trace rest (fst (run_script inp s)))) = 0"
    using Cons.IH [of "fst (run_script inp s)"] k Cons.prems by simp
  then show ?case using k z by simp
qed

text \<open>
  C5, as the code has it: a run asks for the feedback exactly when it draws the results
  screen and the stored feedback is \<open>None\<close> or the empty string, once in that run, and
  stores the reply. From a results screen with a feedback that is not empty, no sequence
  of runs without New Interview asks again or changes the feedback.
\<close>

theorem feedback_kept_while_not_empty:
  "feedback_calls (snd (run_script inp s)) =
     (if completed s \<and> radio_mode inp = Start_Mock_Interview \<and> \<not> truthy_str (feedback s) then 1 else 0) \<and>
   (completed s \<and> radio_mode inp = Start_Mock_Interview \<and> \<not> truthy_str (feedback s) \<and>
      clicked inp \<noteq> Some New_Interview \<longrightarrow>
      (\<exists>rate. feedback (fst (run_script inp s)) =
         reply (ask_chat (client inp) (api inp) (feedback_prompt (sidebar inp s) rate) 3))) \<and>
   (completed s \<and> truthy_str (feedback s) \<and> (\<forall>i\<in>set inps. clicked i \<noteq> Some New_Interview) \<longrightarrow>
      completed (exec inps s) \<and> feedback (exec inps s) = feedback s \<and>
      sum_list (map feedback_calls (trace inps s)) = 0)"
  using run_feedback_calls [of inp s] run_feedback_stored [of s inp] feedback_kept_exec [of s inps]
  by blast

theorem feedback_kept_while_not_empty_witness:
  "completed (fst (run_script idle finished)) \<and>
   truthy_str (feedback (fst (run_script idle finished))) \<and>
   feedback (exec [idle, press View_Analytics, idle] (fst (run_script idle finished))) =
     feedback (fst (run_script idle finished)) \<and>
   sum_list (map feedback_calls (trace [idle, press View_Analytics, idle] (fst (run_script idle finished)))) = 0"
proof -
  have c: "completed (fst (run_script idle finished))"
    "truthy_str (feedback (fst (run_script idle finished)))"
    by code_simp+
  have b: "\<forall>i\<in>set [idle, press View_Analytics, idle]. clicked i \<noteq> Some New_Interview"
    by (simp add: idle_def press_def)
  show ?thesis
    using c b feedback_kept_while_not_empty [of idle "fst (run_script idle finished)"
      "[idle, press View_Analytics, idle]"]
    by blast
qed

text \<open>
  C5 as stated fails: when the service answers with an empty text, the run that first
  draws the results screen asks for the feedback and stores the empty reply, and the
  next run of the same results screen asks again.
\<close>

theorem feedback_asked_again:
  "completed finished \<and>
   feedback_calls (snd (run_script silent finished)) = 1 \<and>
   feedback (fst (run_script silent finished)) = Some [] \<and>
   completed (fst (run_script silent finished)) \<and>
   feedback_calls (snd (run_script silent (fst (run_script silent finished)))) = 1"
  by code_simp

section \<open>Pause, resume and the time limit\<close>

lemma in_progress_shown: "shown_remaining (snd (in_progress inp s q)) = timer_check inp s"
  by (simp add: in_progress_def Let_def)

lemma run_shown:
  assumes "shown_remaining (snd (run_script inp s)) = Some r"
  shows "\<not> paused s \<and>
         (\<exists>t. start_time s = Some t \<and>
              r = max 0 (time_value (select_time_limit inp) - py_int (now_timer inp - t)))"
  using run_cases [of inp s] assms completed_screen_quiet [of inp "sidebar inp s"]
proof (elim disjE exE conjE)
  fix q
  assume a: "radio_mode inp = Start_Mock_Interview"
    "run_script inp s = in_progress inp (sidebar inp s) q"
  then have "timer_check inp (sidebar inp s) = Some r"
    using assms by (simp add: in_progress_shown)
  then show ?thesis using sidebar_settings [OF a(1), of s]
    by (auto simp add: timer_check_def split: option.splits if_splits)
qed simp_all

lemma run_pause:
  assumes "outcome (snd (run_script inp s)) = Pause_Toggled"
  shows "start_time (fst (run_script inp s)) = start_time s \<and>
         paused (fst (run_script inp s)) = (\<not> paused s) \<and>
         current_q (fst (run_script inp s)) = current_q s \<and>
         answers (fst (run_script inp s)) = answers s"
proof -
  from progress_run [of inp s] assms
  obtain q where q: "run_script inp s = in_progress inp (sidebar inp s) q" by blast
  from in_progress_cases [of inp "sidebar inp s" q] assms q
  have "fst (run_script inp s) = toggle_pause (sidebar inp s)" by auto
  then show ?thesis by simp
qed

text \<open>
  C2, as the code has it: Pause and Resume change \<open>paused\<close> and nothing else; the start
  time of the question is not moved. Whenever a run shows a remaining time, the session
  is not paused and the time shown is the limit chosen in the sidebar less the whole
  seconds since the start of the question, not below zero: time spent paused counts.
\<close>

theorem pause_keeps_start_time:
  "(outcome (snd (run_script inp s)) = Pause_Toggled \<longrightarrow>
      start_time (fst (run_script inp s)) = start_time s \<and>
      paused (fst (run_script inp s)) = (\<not> paused s) \<and>
      current_q (fst (run_script inp s)) = current_q s \<and>
      answers (fst (run_script inp s)) = answers s) \<and>
   (shown_remaining (snd (run_script inp s)) = Some r \<longrightarrow>
      \<not> paused s \<and>
      (\<exists>t. start_time s = Some t \<and>
           r = max 0 (time_value (select_time_limit inp) - py_int (now_timer inp - t))))"
  using run_pause [of inp s] run_shown [of inp s r] by blast

theorem pause_keeps_start_time_witness:
  "outcome (snd (run_script (pause_at 1015) asked)) = Pause_Toggled \<and>
   shown_remaining (snd (run_script (pause_at 1015) asked)) = Some 45 \<and>
   start_time (fst (run_script (pause_at 1015) asked)) = start_time asked \<and>
   paused (fst (run_script (pause_at 1015) asked)) = (\<not> paused asked)"
proof -
  have o: "outcome (snd (run_script (pause_at 1015) asked)) = Pause_Toggled"
    "shown_remaining (snd (run_script (pause_at 1015) asked)) = Some 45"
    by code_simp+
  show ?thesis
    using o pause_keeps_start_time [of "pause_at 1015" asked 45] by blast
qed

text \<open>
  C2 as stated fails: with 60 seconds for the question, pausing at second 15 shows 45
  seconds; after ten seconds of pause, the run that follows Resume shows 35.
\<close>

theorem resume_counts_paused_time:
  "shown_remaining (snd (run_script (pause_at 1015) asked)) = Some 45 \<and>
   paused (exec [pause_at 1015, look_at 1015] asked) \<and>
   outcome (snd (run_script (pause_at 1025) (exec [pause_at 1015, look_at 1015] asked))) = Pause_Toggled \<and>
   \<not> paused (exec [pause_at 1015, look_at 1015, pause_at 1025] asked) \<and>
   shown_remaining (snd (run_script (look_at 1025)
      (exec [pause_at 1015, look_at 1015, pause_at 1025] asked))) = Some 35"
  by code_simp

text \<open>
  C1 at a concrete session: for Beginner and 60 seconds Start stores
  \<open>int(60 * 1.5) = 90\<close>, but the next run stores the value of the sidebar's select box
  again before it reads the limit: the timer shows 60 seconds, the question times out
  at second 61 and the record says 60 seconds.
\<close>

theorem sidebar_overwrites_adjusted_time:
  "time_limit (exec [press Start_Interview] defaults) = 90 \<and>
   shown_remaining (snd (run_script idle (exec [press Start_Interview] defaults))) = Some 60 \<and>
   time_limit (exec [press Start_Interview, idle] defaults) = 60 \<and>
   outcome (snd (run_script (idle\<lparr>now_timer := 1061\<rparr>) (exec [press Start_Interview, idle] defaults)))
     = Auto_Advanced \<and>
   map time_taken (answers (exec [press Start_Interview, idle, idle\<lparr>now_timer := 1061\<rparr>] defaults)) = [60]"
  by code_simp

text \<open>
  C3 at a concrete session: the report of a finished interview has one block for each
  of the three records, in order, and prints the typed answer as it is; for the two
  records whose answer is the empty string it prints an empty line, not the placeholder
  \<open>[No answer provided]\<close>.
\<close>

theorem report_prints_empty_answer:
  "map answer (answers answered) = [(py ''I am Ada''), [], []] \<and>
   report (snd (run_script idle answered)) =
     Some ((py ''\<newline>AI MOCK INTERVIEW RESULTS\<newline>'') @
           (py ''========================\<newline>'') @
           (py ''Date: 2024-01-01 10:00:00\<newline>'') @
           (py ''Candidate: Ada\<newline>'') @
           (py ''Category: General\<newline>'') @
           (py ''Difficulty: Beginner\<newline>'') @
           (py ''Total Questions: 3\<newline>'') @
           (py ''Questions Answered: 1\<newline>'') @
           (py ''Completion Rate: 33%\<newline>'') @
           (py ''Total Time: 00:00\<newline>'') @
           (py ''\<newline>'') @
           (py ''QUESTIONS & ANSWERS\<newline>'') @
           (py ''==================\<newline>'') @
           (py ''\<newline>'') @
           (py ''Q1: Why are you interested in this position?\<newline>'') @
           (py ''Time Allocated: 60s\<newline>'') @
           (py ''Time Used: 0s\<newline>'') @
           (py ''\<newline>'') @
           (py ''Your Answer:\<newline>'') @
           (py ''I am Ada\<newline>'') @
           (py ''\<newline>'') @
           (py ''==================================================\<newline>'') @
           (py ''\<newline>'') @
           (py ''Q2: What are your strengths and weaknesses?\<newline>'') @
           (py ''Time Allocated: 60s\<newline>'') @
           (py ''Time Used: 0s\<newline>'') @
           (py ''\<newline>'') @
           (py ''Your Answer:\<newline>'') @
           (py ''\<newline>'') @
           (py ''\<newline>'') @
           (py ''==================================================\<newline>'') @
           (py ''\<newline>'') @
           (py ''Q3: Where do you see yourself in 5 years?\<newline>'') @
           (py ''Time Allocated: 60s\<newline>'') @
           (py ''Time Used: 0s\<newline>'') @
           (py ''\<newline>'') @
           (py ''Your Answer:\<newline>'') @
           (py ''\<newline>'') @
           (py ''\<newline>'') @
           (py ''==================================================\<newline>'') @
           (py ''\<newline>'') @
           (py ''\<newline>'') @
           (py ''AI COACH FEEDBACK\<newline>'') @
           (py ''================\<newline>'') @
           (py ''Ada\<newline>'') @
           (py ''\<newline>'') @
           (py ''END OF REPORT\<newline>'') @
           (py ''=============\<newline>'') @
           (py ''Generated by AI Mock Interview Bot\<newline>''))"
  by code_simp

end
